theory Spec2Isabelle
  imports Complex_Main "HOL-Library.Word"
begin

unbundle bit_operations_syntax

section \<open>Errors\<close>

text \<open>
  Every throw of the modelled code is a value of this type. \<open>DecodeError\<close> is a malformed
  audio chunk, \<open>PermissionError\<close> and \<open>DeviceError\<close> are the two rejections of
  \<open>getUserMedia\<close>, \<open>GraphError\<close> is an exception of an audio-graph call,
  \<open>RangeError\<close> is a typed-array view over a buffer of the wrong length, and
  \<open>TypeError\<close> is a property read on \<open>null\<close>.
\<close>

datatype error =
    DecodeError
  | PermissionError
  | DeviceError
  | GraphError
  | RangeError
  | TypeError

section \<open>PCM codec\<close>

text \<open>
  The codec lives in \<open>utils.ts\<close>, which is imported by the component and exercised by
  the test file, but whose text is not among the sources. Its four operations are
  therefore modelled from the specification; each such definition says so.
\<close>

type_synonym byte = "8 word"

subsection \<open>Binary-to-text transport encoding\<close>

text \<open>
  Modelled from the spec: the alphabet of the standard base64 encoding that
  \<open>encode\<close> and \<open>decode\<close> of \<open>utils.ts\<close> (absent from the sources) share, the padding
  character, and the two directions between a 6-bit digit and its character.
\<close>

definition b64chars :: string where
  "b64chars = ''ABCDEFGHIJKLMNOPQRSTUVWXYZabcdefghijklmnopqrstuvwxyz0123456789+/''"

definition pad :: char where
  "pad = CHR ''=''"

definition sextetChar :: "nat \<Rightarrow> char" where
  "sextetChar n = b64chars ! (n mod 64)"

fun indexOf :: "'a \<Rightarrow> 'a list \<Rightarrow> nat option" where
  "indexOf c [] = None"
| "indexOf c (x # xs) = (if x = c then Some 0 else map_option Suc (indexOf c xs))"

definition charSextet :: "char \<Rightarrow> nat option" where
  "charSextet c = indexOf c b64chars"

text \<open>
  Modelled from the spec: \<open>bytesToText\<close> (\<open>encode\<close> of \<open>utils.ts\<close>, absent from the
  sources), the standard base64 encoding: three bytes make a 24-bit number that is cut
  into four 6-bit digits; a last group of one or two bytes is padded with \<open>=\<close>.
\<close>

fun bytesToText :: "byte list \<Rightarrow> string" where
  "bytesToText [] = []"
| "bytesToText [a] =
     (let n = unat a * 65536
      in [sextetChar (n div 262144), sextetChar (n div 4096), pad, pad])"
| "bytesToText [a, b] =
     (let n = unat a * 65536 + unat b * 256
      in [sextetChar (n div 262144), sextetChar (n div 4096), sextetChar (n div 64), pad])"
| "bytesToText (a # b # c # rest) =
     (let n = unat a * 65536 + unat b * 256 + unat c
      in [sextetChar (n div 262144), sextetChar (n div 4096), sextetChar (n div 64),
          sextetChar n] @ bytesToText rest)"

text \<open>The number spelled by a run of base64 digits, or \<open>None\<close> at a foreign character.\<close>

definition sextets :: "char list \<Rightarrow> nat option" where
  "sextets cs = fold (\<lambda>c acc. case (acc, charSextet c) of
                               (Some n, Some s) \<Rightarrow> Some (n * 64 + s)
                             | _ \<Rightarrow> None) cs (Some 0)"

text \<open>
  Modelled from the spec: \<open>textToBytes\<close> (\<open>decode\<close> of \<open>utils.ts\<close>, absent from the
  sources), the inverse of the encoding. Text is read four characters at a time; padding
  is accepted in the last group only; malformed text fails with \<open>DecodeError\<close>.
\<close>

fun textToBytes :: "string \<Rightarrow> error + byte list" where
  "textToBytes [] = Inr []"
| "textToBytes (c1 # c2 # c3 # c4 # rest) =
     (if rest = [] \<and> c3 = pad \<and> c4 = pad then
        (case sextets [c1, c2] of
           None \<Rightarrow> Inl DecodeError
         | Some n \<Rightarrow> Inr [of_nat (n div 16)])
      else if rest = [] \<and> c4 = pad then
        (case sextets [c1, c2, c3] of
           None \<Rightarrow> Inl DecodeError
         | Some n \<Rightarrow> Inr [of_nat (n div 1024), of_nat (n div 4)])
      else
        (case sextets [c1, c2, c3, c4] of
           None \<Rightarrow> Inl DecodeError
         | Some n \<Rightarrow>
             (case textToBytes rest of
                Inl e \<Rightarrow> Inl e
              | Inr bs \<Rightarrow> Inr (of_nat (n div 65536) # of_nat (n div 256) # of_nat n # bs))))"
| "textToBytes _ = Inl DecodeError"

subsection \<open>Samples to 16-bit words\<close>

text \<open>
  Modelled from the spec: \<open>floatToPcmChunk\<close> (the sample loop of \<open>createBlob\<close> in
  \<open>utils.ts\<close>, absent from the sources). Each sample is scaled by 32768 and rounded to
  the nearest integer; no clamp is performed; the result is stored in a signed 16-bit
  word, which keeps the low 16 bits, and the words are laid out low byte first.
  Samples are real numbers here: every finite 32-bit float is one.
\<close>

definition floatToInt16 :: "real \<Rightarrow> 16 word" where
  "floatToInt16 s = word_of_int (round (s * 32768))"

definition int16ToBytes :: "16 word \<Rightarrow> byte list" where
  "int16ToBytes w = [ucast w, ucast (drop_bit 8 w)]"

definition floatToPcmChunk :: "real list \<Rightarrow> byte list" where
  "floatToPcmChunk samples = concat (map (\<lambda>s. int16ToBytes (floatToInt16 s)) samples)"

record blob =
  data :: string
  mimeType :: string

text \<open>
  Modelled from the spec: \<open>createBlob\<close> of \<open>utils.ts\<close> (absent from the sources), the
  outbound transport payload: the base64 text of the chunk under the fixed MIME type.
\<close>

definition createBlob :: "real list \<Rightarrow> blob" where
  "createBlob samples =
     \<lparr>data = bytesToText (floatToPcmChunk samples), mimeType = ''audio/pcm;rate=16000''\<rparr>"



section \<open>The component \<open>GdmLiveAudio\<close>\<close>

text \<open>
  Objects of the Web Audio graph (buffer sources, the stream source, the script
  processor) and device tracks are known by identity only: a natural number.
\<close>

type_synonym handle = nat
type_synonym track = nat
type_synonym mediaStream = "track list"

text \<open>
  An \<open>AudioBuffer\<close>: a number of sample frames at a sample rate. Its \<open>duration\<close> is
  \<open>length / sampleRate\<close> seconds, as in the test file's \<open>createBuffer\<close>.
\<close>

record audioBuffer =
  frames :: nat
  sampleRate :: nat

definition duration :: "audioBuffer \<Rightarrow> real" where
  "duration b = real (frames b) / real (sampleRate b)"

text \<open>Where a node is connected to.\<close>

datatype target = InputGain | OutputGain | Processor handle | Destination

text \<open>
  What a handler does to the world outside the component's fields, in the order it
  does it. \<open>SendRealtimeInput\<close> is the registration of the send on the session promise.
\<close>

datatype effect =
    SourceStart handle real
  | SourceStop handle
  | SendRealtimeInput blob
  | ContextResume
  | Connect handle target
  | Disconnect handle
  | TrackStop track
  | ConsoleError error
  | SessionClose

text \<open>
  The fields of the class that the audio pipeline reads or writes. A field that holds an
  object or \<open>null\<close>/\<open>undefined\<close> is an option (the code only ever tests such a field for
  truthiness); \<open>sessionPromise\<close> and \<open>inputAudioContext\<close> record whether the field holds
  an object. \<open>sources\<close> is the \<open>Set\<close> of scheduled buffer sources in insertion order.
  \<open>nodesCreated\<close> counts the nodes made so far and names the next one. Times are
  seconds on the output context's clock, as real numbers. The transcription fields
  and the language selection are left out: no handler below reads them.
\<close>

record gdmLiveAudio =
  isRecording :: bool
  status :: string
  sessionPromise :: bool
  inputAudioContext :: bool
  nextStartTime :: real
  mediaStream :: "mediaStream option"
  sourceNode :: "handle option"
  scriptProcessorNode :: "handle option"
  sources :: "handle list"
  nodesCreated :: nat

subsection \<open>The in-flight set\<close>

definition setAdd :: "handle \<Rightarrow> handle list \<Rightarrow> handle list" where
  "setAdd h hs = (if h \<in> set hs then hs else hs @ [h])"

definition setDelete :: "handle \<Rightarrow> handle list \<Rightarrow> handle list" where
  "setDelete h hs = removeAll h hs"

subsection \<open>Construction\<close>

definition updateStatus :: "string \<Rightarrow> gdmLiveAudio \<Rightarrow> gdmLiveAudio" where
  "updateStatus msg st = st\<lparr>status := msg\<rparr>"

definition initAudio :: "real \<Rightarrow> gdmLiveAudio \<Rightarrow> gdmLiveAudio" where
  "initAudio currentTime st = st\<lparr>nextStartTime := currentTime\<rparr>"

text \<open>The field initialisers followed by the constructor body.\<close>

definition construct :: "real \<Rightarrow> gdmLiveAudio" where
  "construct currentTime =
     initAudio currentTime
       \<lparr>isRecording = False, status = [], sessionPromise = False,
        inputAudioContext = True, nextStartTime = 0, mediaStream = None,
        sourceNode = None, scriptProcessorNode = None, sources = [], nodesCreated = 0\<rparr>"

definition initSession :: "gdmLiveAudio \<Rightarrow> gdmLiveAudio" where
  "initSession st = st\<lparr>sessionPromise := True\<rparr>"

subsection \<open>Playback: the \<open>onmessage\<close> handler\<close>

text \<open>
  A server message, as far as playback reads it: the base64 text of
  \<open>serverContent.modelTurn.parts[0].inlineData\<close> when there is one, and the flag
  \<open>serverContent.interrupted\<close>.
\<close>

record serverMessage =
  inlineData :: "string option"
  interrupted :: bool

text \<open>
  The audio branch (\<open>if (audio) { ... }\<close>). \<open>decodeAudio\<close> stands for
  \<open>decodeAudioData(decode(audio.data), ctx, 24000, 1)\<close> of the absent \<open>utils.ts\<close>: it
  yields the decoded buffer or throws. \<open>currentTime\<close> is the output clock as the handler
  reads it. The cursor is moved to \<open>max\<close> before the decode, so a throw of the decoder
  leaves the handler with that assignment done and nothing else. The new buffer source
  is the next unused handle. The handler is taken to run to its end once started: no
  other handler runs while the decode is awaited.
\<close>

definition scheduleAudio ::
  "(string \<Rightarrow> error + audioBuffer) \<Rightarrow> real \<Rightarrow> string \<Rightarrow> gdmLiveAudio
     \<Rightarrow> gdmLiveAudio \<times> effect list \<times> error option" where
  "scheduleAudio decodeAudio currentTime payload st =
     (let st1 = st\<lparr>nextStartTime := max (nextStartTime st) currentTime\<rparr>
      in case decodeAudio payload of
           Inl e \<Rightarrow> (st1, [], Some e)
         | Inr audioBuffer \<Rightarrow>
             (let source = nodesCreated st1;
                  st2 = st1\<lparr>nodesCreated := Suc source\<rparr>;
                  connected = Connect source OutputGain;
                  started = SourceStart source (nextStartTime st2);
                  st3 = st2\<lparr>nextStartTime := nextStartTime st2 + duration audioBuffer\<rparr>;
                  st4 = st3\<lparr>sources := setAdd source (sources st3)\<rparr>
              in (st4, [connected, started], None)))"

text \<open>The listener registered on each source: \<open>this.sources.delete(source)\<close>.\<close>

definition onended :: "handle \<Rightarrow> gdmLiveAudio \<Rightarrow> gdmLiveAudio" where
  "onended source st = st\<lparr>sources := setDelete source (sources st)\<rparr>"

text \<open>
  The loop \<open>for (const source of this.sources.values()) { source.stop();
  this.sources.delete(source); }\<close>. The first argument is what the iterator has still
  to visit, the second the live set: an entry deleted before the iterator reaches it
  is skipped.
\<close>

fun stopLoop :: "handle list \<Rightarrow> handle list \<Rightarrow> handle list \<times> effect list" where
  "stopLoop [] live = (live, [])"
| "stopLoop (source # rest) live =
     (if source \<in> set live then
        (let (live', effs) = stopLoop rest (setDelete source live)
         in (live', SourceStop source # effs))
      else stopLoop rest live)"

text \<open>The branch \<open>if (interrupted) { ... }\<close>.\<close>

definition interrupt :: "gdmLiveAudio \<Rightarrow> gdmLiveAudio \<times> effect list" where
  "interrupt st =
     (let (live, effs) = stopLoop (sources st) (sources st)
      in (st\<lparr>sources := live, nextStartTime := 0\<rparr>, effs))"

text \<open>
  The handler: the audio branch, then the interrupt branch. An exception of the decoder
  leaves the handler at once, so the interrupt branch is not reached in that case.
\<close>

definition onmessage ::
  "(string \<Rightarrow> error + audioBuffer) \<Rightarrow> real \<Rightarrow> serverMessage \<Rightarrow> gdmLiveAudio
     \<Rightarrow> gdmLiveAudio \<times> effect list \<times> error option" where
  "onmessage decodeAudio currentTime message st =
     (let (st1, effs1, err) =
            (case inlineData message of
               None \<Rightarrow> (st, [], None)
             | Some payload \<Rightarrow> scheduleAudio decodeAudio currentTime payload st)
      in case err of
           Some e \<Rightarrow> (st1, effs1, Some e)
         | None \<Rightarrow>
             (if interrupted message then
                (let (st2, effs2) = interrupt st1 in (st2, effs1 @ effs2, None))
              else (st1, effs1, None)))"

subsection \<open>Capture\<close>

text \<open>
  The block processor's callback. It returns the effects it causes, or the exception of
  reading \<open>then\<close> on a \<open>sessionPromise\<close> that is \<open>null\<close>.
\<close>

definition onaudioprocess :: "real list \<Rightarrow> gdmLiveAudio \<Rightarrow> error + effect list" where
  "onaudioprocess pcmData st =
     (if \<not> isRecording st then Inr []
      else if sessionPromise st then Inr [SendRealtimeInput (createBlob pcmData)]
      else Inl TypeError)"

text \<open>
  \<open>stopRecording\<close>, in the three stages of its body: the liveness flag is cleared, the
  nodes are disconnected and forgotten, the device stream is released.
\<close>

definition stopBegin :: "gdmLiveAudio \<Rightarrow> gdmLiveAudio" where
  "stopBegin st = (updateStatus ''Stopping recording...'' st)\<lparr>isRecording := False\<rparr>"

definition stopDisconnect :: "gdmLiveAudio \<Rightarrow> gdmLiveAudio \<times> effect list" where
  "stopDisconnect st =
     (let effs = (case (scriptProcessorNode st, sourceNode st) of
                    (Some p, Some s) \<Rightarrow>
                      if inputAudioContext st then [Disconnect p, Disconnect s] else []
                  | _ \<Rightarrow> [])
      in (st\<lparr>scriptProcessorNode := None, sourceNode := None\<rparr>, effs))"

definition stopRelease :: "gdmLiveAudio \<Rightarrow> gdmLiveAudio \<times> effect list" where
  "stopRelease st =
     (case mediaStream st of
        None \<Rightarrow> (st, [])
      | Some stream \<Rightarrow> (st\<lparr>mediaStream := None\<rparr>, map TrackStop stream))"

definition stopRecording :: "gdmLiveAudio \<Rightarrow> gdmLiveAudio \<times> effect list" where
  "stopRecording st =
     (if \<not> isRecording st \<and> mediaStream st = None \<and> \<not> inputAudioContext st then (st, [])
      else
        (let st1 = stopBegin st;
             (st2, effs2) = stopDisconnect st1;
             (st3, effs3) = stopRelease st2
         in (updateStatus ''Recording stopped. Click Start to begin again.'' st3,
             effs2 @ effs3)))"

text \<open>
  What the browser does during one call of \<open>startRecording\<close>: the outcome of
  \<open>getUserMedia\<close>, and the audio-graph call that throws, if one does. The call is
  taken to run to its end once started, and \<open>errorMessage\<close> stands for \<open>err.message\<close>.
\<close>

datatype wiringStep =
    CreateSource
  | ConnectGain
  | CreateProcessor
  | ConnectProcessor
  | ConnectDestination

record captureEnv =
  getUserMedia :: "error + mediaStream"
  failingStep :: "wiringStep option"

text \<open>
  The body of the \<open>try\<close> block: the state and effects reached, and the exception that
  ended it, if any. (The last status text starts with a red-circle emoji in the source.)
\<close>

definition tryStart ::
  "captureEnv \<Rightarrow> gdmLiveAudio \<Rightarrow> gdmLiveAudio \<times> effect list \<times> error option" where
  "tryStart env st =
     (case getUserMedia env of
        Inl e \<Rightarrow> (st, [], Some e)
      | Inr stream \<Rightarrow>
          (let st1 = updateStatus ''Microphone access granted. Starting capture...''
                       (st\<lparr>mediaStream := Some stream\<rparr>)
           in if failingStep env = Some CreateSource then (st1, [], Some GraphError)
           else
             (let s = nodesCreated st1;
                  st2 = st1\<lparr>sourceNode := Some s, nodesCreated := Suc s\<rparr>
              in if failingStep env = Some ConnectGain then (st2, [], Some GraphError)
              else if failingStep env = Some CreateProcessor
                then (st2, [Connect s InputGain], Some GraphError)
              else
                (let p = nodesCreated st2;
                     st3 = st2\<lparr>scriptProcessorNode := Some p, nodesCreated := Suc p\<rparr>
                 in if failingStep env = Some ConnectProcessor
                      then (st3, [Connect s InputGain], Some GraphError)
                    else if failingStep env = Some ConnectDestination
                      then (st3, [Connect s InputGain, Connect s (Processor p)],
                            Some GraphError)
                    else (updateStatus ''Recording...'' (st3\<lparr>isRecording := True\<rparr>),
                          [Connect s InputGain, Connect s (Processor p),
                           Connect p Destination], None)))))"

definition errorMessage :: "error \<Rightarrow> string" where
  "errorMessage e =
     (case e of
        DecodeError \<Rightarrow> ''DecodeError''
      | PermissionError \<Rightarrow> ''PermissionError''
      | DeviceError \<Rightarrow> ''DeviceError''
      | GraphError \<Rightarrow> ''GraphError''
      | RangeError \<Rightarrow> ''RangeError''
      | TypeError \<Rightarrow> ''TypeError'')"

definition startRecording :: "captureEnv \<Rightarrow> gdmLiveAudio \<Rightarrow> gdmLiveAudio \<times> effect list" where
  "startRecording env st =
     (if isRecording st then (st, [])
      else
        (let st0 = (if \<not> sessionPromise st then initSession st else st);
             st1 = updateStatus ''Requesting microphone access...'' st0;
             (st2, effs, err) = tryStart env st1
         in case err of
              None \<Rightarrow> (st2, ContextResume # effs)
            | Some e \<Rightarrow>
                (let st3 = updateStatus (''Error: '' @ errorMessage e) st2;
                     (st4, effs') = stopRecording st3
                 in (st4, ContextResume # effs @ ConsoleError e # effs'))))"

text \<open>\<open>reset\<close>, without the transcription fields it also clears.\<close>

definition reset :: "gdmLiveAudio \<Rightarrow> gdmLiveAudio \<times> effect list" where
  "reset st =
     (let (st1, effs) = stopRecording st;
          (st2, effs') = (if sessionPromise st1
                          then (st1\<lparr>sessionPromise := False\<rparr>, [SessionClose])
                          else (st1, []))
      in (updateStatus ''Session cleared. Select language and start recording.'' st2,
          effs @ effs'))"

subsection \<open>Runs of the scheduler\<close>

text \<open>A message that carries an audio chunk and nothing else.\<close>

definition audioMessage :: "string \<Rightarrow> serverMessage" where
  "audioMessage payload = \<lparr>inlineData = Some payload, interrupted = False\<rparr>"

text \<open>
  A sequence of chunks, each with the output-clock time at which its message is
  handled, fed to the handler in order. A chunk that fails to decode is dropped and the
  run goes on.
\<close>

fun enqueueAll ::
  "(string \<Rightarrow> error + audioBuffer) \<Rightarrow> (real \<times> string) list \<Rightarrow> gdmLiveAudio
     \<Rightarrow> gdmLiveAudio \<times> effect list" where
  "enqueueAll decodeAudio [] st = (st, [])"
| "enqueueAll decodeAudio ((now, payload) # rest) st =
     (let (st1, effs1, err) = onmessage decodeAudio now (audioMessage payload) st;
          (st2, effs2) = enqueueAll decodeAudio rest st1
      in (st2, effs1 @ effs2))"

text \<open>
  Two decoders for concrete runs: one that rejects every chunk, and one that decodes
  every chunk to the same buffer.
\<close>

definition rejectAll :: "string \<Rightarrow> error + audioBuffer" where
  "rejectAll payload = Inl DecodeError"

definition decodeAs :: "audioBuffer \<Rightarrow> string \<Rightarrow> error + audioBuffer" where
  "decodeAs b payload = Inr b"

text \<open>The value of the cursor after each arrival of such a run.\<close>

fun cursorsAfter ::
  "(string \<Rightarrow> error + audioBuffer) \<Rightarrow> (real \<times> string) list \<Rightarrow> gdmLiveAudio
     \<Rightarrow> real list" where
  "cursorsAfter decodeAudio [] st = []"
| "cursorsAfter decodeAudio ((now, payload) # rest) st =
     (let (st1, effs1, err) = onmessage decodeAudio now (audioMessage payload) st
      in nextStartTime st1 # cursorsAfter decodeAudio rest st1)"

text \<open>The start times commanded by a list of effects, in order.\<close>

fun startTimes :: "effect list \<Rightarrow> real list" where
  "startTimes [] = []"
| "startTimes (SourceStart h t # effs) = t # startTimes effs"
| "startTimes (e # effs) = startTimes effs"

text \<open>
  The specification's side of the contiguity property: the start times
  \<open>t0, t0 + d1, t0 + d1 + d2, ...\<close> of buffers of durations \<open>d1, d2, ...\<close> laid end to
  end from \<open>t0\<close>.
\<close>

fun contiguousStarts :: "real \<Rightarrow> real list \<Rightarrow> real list" where
  "contiguousStarts t [] = []"
| "contiguousStarts t (d # ds) = t # contiguousStarts (t + d) ds"

text \<open>
  The clock never overtakes the cursor: each arrival, given as its clock time and its
  buffer's duration, finds the clock at or before the cursor left by the arrivals
  before it.
\<close>

fun clockBehindCursor :: "real \<Rightarrow> (real \<times> real) list \<Rightarrow> bool" where
  "clockBehindCursor cursor [] = True"
| "clockBehindCursor cursor ((now, d) # rest) =
     (now \<le> cursor \<and> clockBehindCursor (cursor + d) rest)"

text \<open>The capture state: the recording flag, the two nodes and the device stream.\<close>

definition captureState ::
  "gdmLiveAudio \<Rightarrow> bool \<times> handle option \<times> handle option \<times> mediaStream option" where
  "captureState st = (isRecording st, scriptProcessorNode st, sourceNode st, mediaStream st)"

text \<open>A call of \<open>startRecording\<close> fails when the device or the graph throws.\<close>

definition startFails :: "captureEnv \<Rightarrow> bool" where
  "startFails env = (isl (getUserMedia env) \<or> failingStep env \<noteq> None)"

text \<open>The tracks of the stream that \<open>getUserMedia\<close> handed over, if it did.\<close>

definition acquiredTracks :: "captureEnv \<Rightarrow> track list" where
  "acquiredTracks env = (case getUserMedia env of Inl e \<Rightarrow> [] | Inr stream \<Rightarrow> stream)"

section \<open>The transport encoding is invertible\<close>

lemma indexOf_nth: "distinct xs \<Longrightarrow> n < length xs \<Longrightarrow> indexOf (xs ! n) xs = Some n"
proof (induction xs arbitrary: n)
  case Nil
  then show ?case by simp
next
  case (Cons x xs)
  then show ?case by (cases n) auto
qed

lemma length_b64chars: "length b64chars = 64"
  by (simp add: b64chars_def)

lemma distinct_b64chars: "distinct b64chars"
  by (simp add: b64chars_def)

lemma pad_notin: "pad \<notin> set b64chars"
  by (simp add: b64chars_def pad_def)

lemma charSextet_sextetChar: "charSextet (sextetChar n) = Some (n mod 64)"
  unfolding charSextet_def sextetChar_def
  by (rule indexOf_nth) (simp_all add: distinct_b64chars length_b64chars)

lemma sextetChar_not_pad: "sextetChar n \<noteq> pad"
proof -
  have "sextetChar n \<in> set b64chars"
    unfolding sextetChar_def by (rule nth_mem) (simp add: length_b64chars)
  with pad_notin show ?thesis by auto
qed

lemma sextets2: "sextets [sextetChar x, sextetChar y] = Some (x mod 64 * 64 + y mod 64)"
  by (simp add: sextets_def charSextet_sextetChar)

lemma sextets3:
  "sextets [sextetChar x, sextetChar y, sextetChar z] =
     Some ((x mod 64 * 64 + y mod 64) * 64 + z mod 64)"
  by (simp add: sextets_def charSextet_sextetChar)

lemma sextets4:
  "sextets [sextetChar x, sextetChar y, sextetChar z, sextetChar w] =
     Some (((x mod 64 * 64 + y mod 64) * 64 + z mod 64) * 64 + w mod 64)"
  by (simp add: sextets_def charSextet_sextetChar)

lemma regroup24:
  fixes n :: nat
  assumes "n < 16777216"
  shows "((n div 262144 mod 64 * 64 + n div 4096 mod 64) * 64 + n div 64 mod 64) * 64 + n mod 64 = n"
proof -
  have d1: "n div 4096 = n div 64 div 64" and d2: "n div 262144 = n div 64 div 64 div 64"
    by (simp_all add: div_mult2_eq)
  have "n div 64 div 64 div 64 < 64" using assms by simp
  then have top: "n div 64 div 64 div 64 mod 64 = n div 64 div 64 div 64" by simp
  show ?thesis unfolding d1 d2 top by simp
qed

lemma unat_byte_less: "unat (a :: byte) < 256"
  using unsigned_less [of a, where ?'a = nat] by simp

lemma byte_of_nat_shift: "(of_nat (k * 256 + unat (a :: byte)) :: byte) = a"
proof -
  have "(of_nat (k * 256 + unat a) :: byte) = of_nat (unat a)"
    unfolding word_of_nat_eq_iff by (simp add: take_bit_eq_mod)
  then show ?thesis by simp
qed

lemma triple_div65536:
  "(unat (a::byte) * 65536 + unat (b::byte) * 256 + unat (c::byte)) div 65536 = unat a"
  using unat_byte_less [of b] unat_byte_less [of c] by simp

lemma triple_div256:
  "(unat (a::byte) * 65536 + unat (b::byte) * 256 + unat (c::byte)) div 256 = unat a * 256 + unat b"
  using unat_byte_less [of c] by simp

lemma triple_less:
  "unat (a::byte) * 65536 + unat (b::byte) * 256 + unat (c::byte) < 16777216"
  using unat_byte_less [of a] unat_byte_less [of b] unat_byte_less [of c] by simp


lemma regroup12:
  fixes m :: nat
  assumes "m < 4096"
  shows "m div 64 mod 64 * 64 + m mod 64 = m"
  using assms by simp

lemma regroup18:
  fixes m :: nat
  assumes "m < 262144"
  shows "(m div 4096 mod 64 * 64 + m div 64 mod 64) * 64 + m mod 64 = m"
proof -
  have d: "m div 4096 = m div 64 div 64" by (simp add: div_mult2_eq)
  have "m div 64 div 64 < 64" using assms by simp
  then have top: "m div 64 div 64 mod 64 = m div 64 div 64" by simp
  show ?thesis unfolding d top by simp
qed

lemma decode_single:
  fixes a :: byte
  defines "n \<equiv> unat a * 65536"
  shows "textToBytes [sextetChar (n div 262144), sextetChar (n div 4096), pad, pad] = Inr [a]"
proof -
  define m where "m = unat a * 16"
  have lt: "m < 4096" using unat_byte_less [of a] by (simp add: m_def)
  have e1: "n div 262144 = m div 64" and e2: "n div 4096 = m"
    by (simp_all add: n_def m_def)
  have s: "sextets [sextetChar (n div 262144), sextetChar (n div 4096)] = Some m"
    unfolding sextets2 e1 e2 regroup12 [OF lt] by (rule refl)
  have b1: "(of_nat (m div 16) :: byte) = a" by (simp add: m_def)
  show ?thesis using s b1 by simp
qed

lemma decode_pair:
  fixes a b :: byte
  defines "n \<equiv> unat a * 65536 + unat b * 256"
  shows "textToBytes [sextetChar (n div 262144), sextetChar (n div 4096),
                      sextetChar (n div 64), pad] = Inr [a, b]"
proof -
  define m where "m = unat a * 1024 + unat b * 4"
  have lt: "m < 262144"
    using unat_byte_less [of a] unat_byte_less [of b] by (simp add: m_def)
  have e1: "n div 262144 = m div 4096" and e2: "n div 4096 = m div 64" and e3: "n div 64 = m"
    by (simp_all add: n_def m_def)
  have s: "sextets [sextetChar (n div 262144), sextetChar (n div 4096),
                      sextetChar (n div 64)] = Some m"
    unfolding sextets3 e1 e2 e3 regroup18 [OF lt] by (rule refl)
  have "m div 1024 = unat a"
    using unat_byte_less [of b] by (simp add: m_def)
  then have b1: "(of_nat (m div 1024) :: byte) = a" by simp
  have "m div 4 = unat a * 256 + unat b"
    by (simp add: m_def)
  then have b2: "(of_nat (m div 4) :: byte) = b" by (simp only: byte_of_nat_shift)
  show ?thesis
    using s b1 b2 by (simp add: sextetChar_not_pad)
qed

lemma decode_triple:
  fixes a b c :: byte
  defines "n \<equiv> unat a * 65536 + unat b * 256 + unat c"
  shows "textToBytes (sextetChar (n div 262144) # sextetChar (n div 4096) #
                      sextetChar (n div 64) # sextetChar n # cs) =
         (case textToBytes cs of Inl e \<Rightarrow> Inl e | Inr bs \<Rightarrow> Inr (a # b # c # bs))"
proof -
  have lt: "n < 16777216" unfolding n_def by (rule triple_less)
  have s: "sextets [sextetChar (n div 262144), sextetChar (n div 4096),
                    sextetChar (n div 64), sextetChar n] = Some n"
    unfolding sextets4 regroup24 [OF lt] by (rule refl)
  have "n div 65536 = unat a" unfolding n_def by (rule triple_div65536)
  then have b1: "(of_nat (n div 65536) :: byte) = a" by simp
  have "n div 256 = unat a * 256 + unat b" unfolding n_def by (rule triple_div256)
  then have b2: "(of_nat (n div 256) :: byte) = b" by (simp only: byte_of_nat_shift)
  have "n = (unat a * 256 + unat b) * 256 + unat c" by (simp add: n_def)
  then have b3: "(of_nat n :: byte) = c" by (simp only: byte_of_nat_shift)
  show ?thesis
    by (simp add: s b1 b2 b3 sextetChar_not_pad split: sum.split)
qed

text \<open>
  C7. For every byte sequence \<open>b\<close>, decoding the base64 text of \<open>b\<close> succeeds and gives
  back \<open>b\<close>; the empty sequence encodes to the empty text.
\<close>

theorem base64_roundtrip:
  "textToBytes (bytesToText b) = Inr b \<and> bytesToText [] = []"
proof
  show "textToBytes (bytesToText b) = Inr b"
  proof (induction b rule: bytesToText.induct)
    case 1
    show ?case by simp
  next
    case (2 a)
    show ?case using decode_single [of a] by (simp add: Let_def)
  next
    case (3 a b)
    show ?case using decode_pair [of a b] by (simp add: Let_def)
  next
    case (4 a b c rest)
    show ?case using decode_triple [of a b c "bytesToText rest"] 4 by (simp add: Let_def)
  qed
  show "bytesToText [] = []" by simp
qed

section \<open>Full-scale samples\<close>



section \<open>The audio branch, step by step\<close>

lemma scheduleAudio_decoded:
  assumes "decodeAudio payload = Inr b"
  shows "scheduleAudio decodeAudio now payload st =
           (st\<lparr>nextStartTime := max (nextStartTime st) now + duration b,
               nodesCreated := Suc (nodesCreated st),
               sources := setAdd (nodesCreated st) (sources st)\<rparr>,
            [Connect (nodesCreated st) OutputGain,
             SourceStart (nodesCreated st) (max (nextStartTime st) now)], None)"
  using assms by (simp add: scheduleAudio_def Let_def)

lemma scheduleAudio_failed:
  assumes "decodeAudio payload = Inl e"
  shows "scheduleAudio decodeAudio now payload st =
           (st\<lparr>nextStartTime := max (nextStartTime st) now\<rparr>, [], Some e)"
  using assms by (simp add: scheduleAudio_def Let_def)

lemma onmessage_audio_decoded:
  assumes "decodeAudio payload = Inr b"
  shows "onmessage decodeAudio now (audioMessage payload) st =
           (st\<lparr>nextStartTime := max (nextStartTime st) now + duration b,
               nodesCreated := Suc (nodesCreated st),
               sources := setAdd (nodesCreated st) (sources st)\<rparr>,
            [Connect (nodesCreated st) OutputGain,
             SourceStart (nodesCreated st) (max (nextStartTime st) now)], None)"
  by (simp add: onmessage_def audioMessage_def
      scheduleAudio_decoded [of decodeAudio payload b, OF assms])

lemma onmessage_audio_failed:
  assumes "inlineData message = Some payload" and "decodeAudio payload = Inl e"
  shows "onmessage decodeAudio now message st =
           (st\<lparr>nextStartTime := max (nextStartTime st) now\<rparr>, [], Some e)"
  using assms by (simp add: onmessage_def scheduleAudio_def)

lemma duration_nonneg: "0 \<le> duration b"
  by (simp add: duration_def)

lemma startTimes_append: "startTimes (xs @ ys) = startTimes xs @ startTimes ys"
  by (induction xs rule: startTimes.induct) simp_all

section \<open>Gapless scheduling\<close>

text \<open>
  A run whose arrivals all find the clock at or before the cursor: the buffers are laid
  end to end from the cursor, and after each arrival the cursor is that buffer's start
  plus its duration.
\<close>

lemma run_from_cursor:
  assumes "\<forall>(now, payload) \<in> set arrivals. decodeAudio payload = Inr (buf payload)"
    and "clockBehindCursor (nextStartTime st)
           (map (\<lambda>(now, payload). (now, duration (buf payload))) arrivals)"
  shows "startTimes (snd (enqueueAll decodeAudio arrivals st)) =
           contiguousStarts (nextStartTime st)
             (map (\<lambda>(now, payload). duration (buf payload)) arrivals)
       \<and> cursorsAfter decodeAudio arrivals st =
           map2 (+)
             (contiguousStarts (nextStartTime st)
                (map (\<lambda>(now, payload). duration (buf payload)) arrivals))
             (map (\<lambda>(now, payload). duration (buf payload)) arrivals)"
  using assms
proof (induction arrivals arbitrary: st)
  case Nil
  show ?case by simp
next
  case (Cons a arrivals)
  obtain now payload where a: "a = (now, payload)" by (cases a)
  from Cons.prems(1) a have dec: "decodeAudio payload = Inr (buf payload)" by simp
  from Cons.prems(2) a have le: "now \<le> nextStartTime st" by simp
  define st1 where
    "st1 = st\<lparr>nextStartTime := max (nextStartTime st) now + duration (buf payload),
              nodesCreated := Suc (nodesCreated st),
              sources := setAdd (nodesCreated st) (sources st)\<rparr>"
  have cur: "nextStartTime st1 = nextStartTime st + duration (buf payload)"
    using le by (simp add: st1_def max_def)
  have step: "onmessage decodeAudio now (audioMessage payload) st =
     (st1, [Connect (nodesCreated st) OutputGain,
            SourceStart (nodesCreated st) (nextStartTime st)], None)"
    using le
    unfolding st1_def onmessage_audio_decoded [of decodeAudio payload "buf payload", OF dec]
    by (simp add: max_def)
  have rest1: "\<forall>(now, payload) \<in> set arrivals. decodeAudio payload = Inr (buf payload)"
    using Cons.prems(1) by simp
  have rest2: "clockBehindCursor (nextStartTime st1)
                 (map (\<lambda>(now, payload). (now, duration (buf payload))) arrivals)"
    using Cons.prems(2) a cur by simp
  note IH = Cons.IH [OF rest1 rest2]
  show ?case
    using IH by (auto simp add: a step cur split: prod.splits)
qed

text \<open>
  C1. Chunks that decode to buffers of durations \<open>d1, d2, ...\<close> are enqueued at clock
  times \<open>now1, now2, ...\<close>. When the clock never overtakes the cursor after the first
  arrival, the scheduled start times are \<open>t0, t0 + d1, t0 + d1 + d2, ...\<close> with
  \<open>t0 = max cursor now1\<close>, which is at or after the clock at the first arrival, whatever
  the spacing of the arrivals; and after each scheduling the cursor is the scheduled
  start plus that buffer's duration.
\<close>

theorem scheduling_contiguity:
  fixes buf :: "string \<Rightarrow> audioBuffer"
  assumes decoded: "\<forall>(now, payload) \<in> set ((now1, payload1) # rest).
                      decodeAudio payload = Inr (buf payload)"
    and behind: "clockBehindCursor (max (nextStartTime st) now1 + duration (buf payload1))
                   (map (\<lambda>(now, payload). (now, duration (buf payload))) rest)"
  shows "startTimes (snd (enqueueAll decodeAudio ((now1, payload1) # rest) st)) =
           contiguousStarts (max (nextStartTime st) now1)
             (map (\<lambda>(now, payload). duration (buf payload)) ((now1, payload1) # rest))
       \<and> now1 \<le> max (nextStartTime st) now1
       \<and> cursorsAfter decodeAudio ((now1, payload1) # rest) st =
           map2 (+)
             (contiguousStarts (max (nextStartTime st) now1)
                (map (\<lambda>(now, payload). duration (buf payload)) ((now1, payload1) # rest)))
             (map (\<lambda>(now, payload). duration (buf payload)) ((now1, payload1) # rest))"
proof -
  define st1 where
    "st1 = st\<lparr>nextStartTime := max (nextStartTime st) now1 + duration (buf payload1),
              nodesCreated := Suc (nodesCreated st),
              sources := setAdd (nodesCreated st) (sources st)\<rparr>"
  from decoded have dec: "decodeAudio payload1 = Inr (buf payload1)" by simp
  have step: "onmessage decodeAudio now1 (audioMessage payload1) st =
     (st1, [Connect (nodesCreated st) OutputGain,
            SourceStart (nodesCreated st) (max (nextStartTime st) now1)], None)"
    unfolding st1_def
    by (rule onmessage_audio_decoded [of decodeAudio payload1 "buf payload1", OF dec])
  have cur: "nextStartTime st1 = max (nextStartTime st) now1 + duration (buf payload1)"
    by (simp add: st1_def)
  have rest1: "\<forall>(now, payload) \<in> set rest. decodeAudio payload = Inr (buf payload)"
    using decoded by simp
  have rest2: "clockBehindCursor (nextStartTime st1)
                 (map (\<lambda>(now, payload). (now, duration (buf payload))) rest)"
    using behind cur by simp
  note tail = run_from_cursor [OF rest1 rest2]
  show ?thesis
    using tail by (auto simp add: step cur split: prod.splits)
qed

text \<open>
  The scenario of the specification as an instance of C1: two buffers of half a second
  (12000 frames at 24 kHz), the first handled at clock time 0 by a fresh component, the
  second at 0.1. They start at 0 and 0.5, and the cursor is 0.5 and then 1.
\<close>

theorem scheduling_contiguity_witness:
  "startTimes (snd (enqueueAll (decodeAs \<lparr>frames = 12000, sampleRate = 24000\<rparr>)
                      [(0, ''first''), (1 / 10, ''second'')] (construct 0))) = [0, 1 / 2]
   \<and> cursorsAfter (decodeAs \<lparr>frames = 12000, sampleRate = 24000\<rparr>)
         [(0, ''first''), (1 / 10, ''second'')] (construct 0) = [1 / 2, 1]"
proof -
  have decoded: "\<forall>(now, payload) \<in> set ((0, ''first'') # [(1 / 10, ''second'')]).
                   decodeAs \<lparr>frames = 12000, sampleRate = 24000\<rparr> payload =
                     Inr \<lparr>frames = 12000, sampleRate = 24000\<rparr>"
    by (simp add: decodeAs_def)
  have behind: "clockBehindCursor
                  (max (nextStartTime (construct 0)) 0 +
                     duration \<lparr>frames = 12000, sampleRate = 24000\<rparr>)
                  (map (\<lambda>(now, payload). (now, duration \<lparr>frames = 12000, sampleRate = 24000\<rparr>))
                     [(1 / 10, ''second'')])"
    by (simp add: construct_def initAudio_def duration_def)
  from scheduling_contiguity
         [where decodeAudio = "decodeAs \<lparr>frames = 12000, sampleRate = 24000\<rparr>"
            and buf = "\<lambda>payload. \<lparr>frames = 12000, sampleRate = 24000\<rparr>",
          OF decoded behind]
  show ?thesis by (simp add: construct_def initAudio_def duration_def)
qed

section \<open>The stop loop\<close>

lemma stopLoop_live: "set live \<subseteq> set xs \<Longrightarrow> fst (stopLoop xs live) = []"
proof (induction xs arbitrary: live)
  case Nil
  then show ?case by simp
next
  case (Cons source rest)
  show ?case
  proof (cases "source \<in> set live")
    case True
    have "set (setDelete source live) \<subseteq> set rest"
      using Cons.prems by (auto simp add: setDelete_def)
    then have "fst (stopLoop rest (setDelete source live)) = []" by (rule Cons.IH)
    with True show ?thesis by (simp add: case_prod_beta)
  next
    case False
    with Cons.prems have "set live \<subseteq> set rest" by auto
    then have "fst (stopLoop rest live) = []" by (rule Cons.IH)
    with False show ?thesis by simp
  qed
qed


lemma startTimes_stopLoop: "startTimes (snd (stopLoop xs live)) = []"
  by (induction xs arbitrary: live) (simp_all add: case_prod_beta)

lemma interrupt_eq:
  "fst (interrupt st) = st\<lparr>sources := [], nextStartTime := 0\<rparr>"
  using stopLoop_live [of "sources st" "sources st"]
  by (simp add: interrupt_def case_prod_beta)

section \<open>A stale cursor\<close>

text \<open>
  C5. A chunk that arrives when the cursor is strictly behind the output clock is
  scheduled to start at the clock's current time, not at the stale cursor.
\<close>

theorem stale_cursor_reanchors:
  assumes "nextStartTime st < now"
    and "inlineData message = Some payload"
    and "decodeAudio payload = Inr b"
  shows "scheduleAudio decodeAudio now payload st =
           (st\<lparr>nextStartTime := now + duration b,
               nodesCreated := Suc (nodesCreated st),
               sources := setAdd (nodesCreated st) (sources st)\<rparr>,
            [Connect (nodesCreated st) OutputGain, SourceStart (nodesCreated st) now], None)
       \<and> startTimes (fst (snd (onmessage decodeAudio now message st))) = [now]"
proof -
  have m: "max (nextStartTime st) now = now" using assms(1) by simp
  have s: "scheduleAudio decodeAudio now payload st =
           (st\<lparr>nextStartTime := now + duration b,
               nodesCreated := Suc (nodesCreated st),
               sources := setAdd (nodesCreated st) (sources st)\<rparr>,
            [Connect (nodesCreated st) OutputGain, SourceStart (nodesCreated st) now], None)"
    using scheduleAudio_decoded [of decodeAudio payload b now st, OF assms(3)] m by simp
  have "startTimes (fst (snd (onmessage decodeAudio now message st))) = [now]"
    by (simp add: onmessage_def assms(2) s case_prod_beta startTimes_append
        interrupt_def startTimes_stopLoop)
  with s show ?thesis by simp
qed

text \<open>An instance of C5: a fresh component, idle for a minute, starts the chunk at 60.\<close>

theorem stale_cursor_reanchors_witness:
  "startTimes (fst (snd (onmessage (decodeAs \<lparr>frames = 12000, sampleRate = 24000\<rparr>) 60
                           (audioMessage ''late'') (construct 0)))) = [60]"
proof -
  have a: "nextStartTime (construct 0) < 60" by (simp add: construct_def initAudio_def)
  have b: "inlineData (audioMessage ''late'') = Some ''late''" by (simp add: audioMessage_def)
  have c: "decodeAs \<lparr>frames = 12000, sampleRate = 24000\<rparr> ''late'' =
             Inr \<lparr>frames = 12000, sampleRate = 24000\<rparr>" by (simp add: decodeAs_def)
  from stale_cursor_reanchors
         [where decodeAudio = "decodeAs \<lparr>frames = 12000, sampleRate = 24000\<rparr>"
            and payload = "''late''", OF a b c]
  show ?thesis by simp
qed

section \<open>Interruption\<close>


section \<open>The cursor and the clock\<close>

lemma stopRecording_cursor: "nextStartTime (fst (stopRecording st)) = nextStartTime st"
  by (simp add: stopRecording_def stopBegin_def stopDisconnect_def stopRelease_def
      updateStatus_def Let_def split: option.split)

text \<open>
  C3, as stated: the cursor is at or after the output clock after every operation, being
  set to the clock's current time on interruption. It is not: a component made at clock
  time 1 and interrupted at that same time has its cursor at 0.
\<close>

theorem cursor_invariant_counterexample:
  "\<not> (1 \<le> nextStartTime (fst (onmessage rejectAll 1 \<lparr>inlineData = None, interrupted = True\<rparr>
                                  (construct 1))))"
  by (simp add: onmessage_def interrupt_def construct_def initAudio_def)

text \<open>
  C3, amended: after an audio chunk is handled, decoded or not, the cursor is at or after
  the clock time read at its arrival; a decoded chunk leaves it at \<open>max cursor now\<close>
  plus exactly the buffer's duration; interruption sets it to the sentinel 0; session
  reset and the natural end of a buffer leave it as it is; construction sets it to the
  clock's current time.
\<close>

theorem cursor_after_operations:
  "now \<le> nextStartTime (fst (onmessage decodeAudio now (audioMessage payload) st))
   \<and> (decodeAudio payload = Inr b \<longrightarrow>
        nextStartTime (fst (onmessage decodeAudio now (audioMessage payload) st)) =
          max (nextStartTime st) now + duration b)
   \<and> nextStartTime (fst (interrupt st)) = 0
   \<and> nextStartTime (fst (reset st)) = nextStartTime st
   \<and> nextStartTime (onended source st) = nextStartTime st
   \<and> nextStartTime (construct now) = now"
proof -
  have a: "now \<le> nextStartTime (fst (onmessage decodeAudio now (audioMessage payload) st))"
  proof (cases "decodeAudio payload")
    case (Inl e)
    have "inlineData (audioMessage payload) = Some payload" by (simp add: audioMessage_def)
    from onmessage_audio_failed
           [where decodeAudio = decodeAudio and payload = payload, OF this Inl]
    show ?thesis by simp
  next
    case (Inr buf)
    have "now \<le> max (nextStartTime st) now + duration buf"
      using duration_nonneg [of buf] by simp
    then show ?thesis
      by (simp add: onmessage_audio_decoded [of decodeAudio payload buf, OF Inr])
  qed
  have b: "decodeAudio payload = Inr b \<longrightarrow>
        nextStartTime (fst (onmessage decodeAudio now (audioMessage payload) st)) =
          max (nextStartTime st) now + duration b"
    by (simp add: onmessage_audio_decoded [of decodeAudio payload b])
  have c: "nextStartTime (fst (interrupt st)) = 0"
    by (simp add: interrupt_eq)
  have d: "nextStartTime (fst (reset st)) = nextStartTime st"
    using stopRecording_cursor [of st]
    by (simp add: reset_def updateStatus_def case_prod_beta)
  have e: "nextStartTime (onended source st) = nextStartTime st"
    by (simp add: onended_def)
  have f: "nextStartTime (construct now) = now"
    by (simp add: construct_def initAudio_def)
  from a b c d e f show ?thesis by simp
qed

text \<open>
  An instance of C3, amended: a half-second buffer handled at clock time 3 by a component
  made at time 1 leaves the cursor at 3.5.
\<close>

theorem cursor_after_operations_witness:
  "decodeAs \<lparr>frames = 12000, sampleRate = 24000\<rparr> ''chunk'' =
     Inr \<lparr>frames = 12000, sampleRate = 24000\<rparr>
   \<and> nextStartTime (fst (onmessage (decodeAs \<lparr>frames = 12000, sampleRate = 24000\<rparr>) 3
                           (audioMessage ''chunk'') (construct 1))) = 7 / 2"
  using cursor_after_operations [of 3 "decodeAs \<lparr>frames = 12000, sampleRate = 24000\<rparr>"
          "''chunk''" "construct 1" "\<lparr>frames = 12000, sampleRate = 24000\<rparr>"]
  by (simp add: decodeAs_def construct_def initAudio_def duration_def)

section \<open>A chunk that fails to decode\<close>

text \<open>
  C4, as stated: a failed decode leaves the cursor and the in-flight set exactly as they
  were. It does not: the cursor has already been moved up to the clock.
\<close>

theorem decode_failure_counterexample:
  "rejectAll ''chunk'' = Inl DecodeError
   \<and> nextStartTime (fst (onmessage rejectAll 1 (audioMessage ''chunk'') (construct 0)))
       \<noteq> nextStartTime (construct 0)"
  by (simp add: onmessage_def scheduleAudio_def audioMessage_def rejectAll_def construct_def
      initAudio_def)

text \<open>
  C4, amended: when the decode of an arriving chunk fails, the decoder's error leaves the
  handler, nothing is started, the in-flight set is unchanged, and the cursor is
  \<open>max cursor now\<close>; so the whole state is what it was whenever the cursor was not behind
  the clock.
\<close>

theorem decode_failure_drops_chunk:
  assumes "inlineData message = Some payload" and "decodeAudio payload = Inl e"
  shows "onmessage decodeAudio now message st =
           (st\<lparr>nextStartTime := max (nextStartTime st) now\<rparr>, [], Some e)
       \<and> sources (fst (onmessage decodeAudio now message st)) = sources st
       \<and> (now \<le> nextStartTime st \<longrightarrow> fst (onmessage decodeAudio now message st) = st)"
  using onmessage_audio_failed
          [where decodeAudio = decodeAudio and payload = payload, OF assms, of now st]
  by (simp add: max_def)

text \<open>
  Two instances of C4, amended: the rejected chunk moves a cursor at 0 up to the clock
  at 1, and leaves a cursor at 2 alone.
\<close>

theorem decode_failure_drops_chunk_witness:
  "onmessage rejectAll 1 (audioMessage ''chunk'') (construct 0) =
     ((construct 0)\<lparr>nextStartTime := 1\<rparr>, [], Some DecodeError)
   \<and> fst (onmessage rejectAll 1 (audioMessage ''chunk'') (construct 2)) = construct 2"
proof -
  have m: "inlineData (audioMessage ''chunk'') = Some ''chunk''" by (simp add: audioMessage_def)
  have r: "rejectAll ''chunk'' = Inl DecodeError" by (simp add: rejectAll_def)
  have c0: "nextStartTime (construct 0) = 0" and c2: "nextStartTime (construct 2) = 2"
    by (simp_all add: construct_def initAudio_def)
  show ?thesis
    using decode_failure_drops_chunk [where decodeAudio = rejectAll and payload = "''chunk''",
            OF m r, of 1 "construct 0"]
      decode_failure_drops_chunk [where decodeAudio = rejectAll and payload = "''chunk''",
            OF m r, of 1 "construct 2"]
    by (simp add: c0 c2)
qed

section \<open>Capture\<close>

lemma onaudioprocess_recording:
  "isRecording st \<Longrightarrow> sessionPromise st \<Longrightarrow>
     onaudioprocess pcmData st = Inr [SendRealtimeInput (createBlob pcmData)]"
  by (simp add: onaudioprocess_def)

lemma onaudioprocess_idle: "\<not> isRecording st \<Longrightarrow> onaudioprocess pcmData st = Inr []"
  by (simp add: onaudioprocess_def)

lemma stopBegin_flag: "\<not> isRecording (stopBegin st)"
  by (simp add: stopBegin_def updateStatus_def)

lemma stopDisconnect_flag: "isRecording (fst (stopDisconnect st)) = isRecording st"
  by (simp add: stopDisconnect_def)

lemma stopRelease_flag: "isRecording (fst (stopRelease st)) = isRecording st"
  by (simp add: stopRelease_def split: option.split)

lemma stopRecording_flag: "\<not> isRecording (fst (stopRecording st))"
  by (simp add: stopRecording_def Let_def case_prod_beta updateStatus_def stopRelease_flag
      stopDisconnect_flag stopBegin_flag)

text \<open>
  C8. A block-processor callback that fires once \<open>stopRecording\<close> has cleared the
  liveness flag sends nothing: not after the flag is cleared, not after the nodes are
  disconnected, not after the stream is released, not after \<open>stopRecording\<close> has returned.
\<close>

theorem no_send_after_stop:
  "onaudioprocess pcmData (stopBegin st) = Inr []
   \<and> onaudioprocess pcmData (fst (stopDisconnect (stopBegin st))) = Inr []
   \<and> onaudioprocess pcmData (fst (stopRelease (fst (stopDisconnect (stopBegin st))))) = Inr []
   \<and> onaudioprocess pcmData (fst (stopRecording st)) = Inr []"
  by (simp add: onaudioprocess_idle stopBegin_flag stopDisconnect_flag stopRelease_flag
      stopRecording_flag)

lemma stopRecording_stopped:
  assumes "\<not> isRecording st" and "scriptProcessorNode st = None" and "sourceNode st = None"
    and "mediaStream st = None"
  shows "stopRecording st =
           (if inputAudioContext st
            then updateStatus ''Recording stopped. Click Start to begin again.'' st
            else st, [])"
  using assms
  by (simp add: stopRecording_def stopBegin_def stopDisconnect_def stopRelease_def
      updateStatus_def Let_def)

lemma stopRecording_result:
  "fst (stopRecording st) =
     (if \<not> isRecording st \<and> mediaStream st = None \<and> \<not> inputAudioContext st then st
      else st\<lparr>isRecording := False, scriptProcessorNode := None, sourceNode := None,
               mediaStream := None,
               status := ''Recording stopped. Click Start to begin again.''\<rparr>)"
  by (simp add: stopRecording_def stopBegin_def stopDisconnect_def stopRelease_def
      updateStatus_def Let_def split: option.split)

text \<open>
  C9. \<open>stopRecording\<close> on a component that is already stopped (not recording, no nodes,
  no stream) leaves the capture state as it is and does nothing to the graph or the
  device; and from any state, a second \<open>stopRecording\<close> changes nothing and does nothing.
\<close>

theorem stop_idempotent:
  assumes "\<not> isRecording st" and "scriptProcessorNode st = None" and "sourceNode st = None"
    and "mediaStream st = None"
  shows "captureState (fst (stopRecording st)) = captureState st
       \<and> snd (stopRecording st) = []
       \<and> stopRecording (fst (stopRecording st0)) = (fst (stopRecording st0), [])"
proof -
  have one: "captureState (fst (stopRecording st)) = captureState st \<and> snd (stopRecording st) = []"
    by (simp add: stopRecording_stopped [OF assms] captureState_def updateStatus_def)
  define st1 where "st1 = fst (stopRecording st0)"
  have two: "stopRecording st1 = (st1, [])"
  proof (cases "\<not> isRecording st0 \<and> mediaStream st0 = None \<and> \<not> inputAudioContext st0")
    case True
    then have "st1 = st0" by (simp add: st1_def stopRecording_def)
    with True show ?thesis by (simp add: stopRecording_def)
  next
    case False
    have eq: "st1 = st0\<lparr>isRecording := False, scriptProcessorNode := None,
                        sourceNode := None, mediaStream := None,
                        status := ''Recording stopped. Click Start to begin again.''\<rparr>"
      unfolding st1_def stopRecording_result by (rule if_not_P [OF False])
    have "stopRecording st1 =
           (if inputAudioContext st1
            then updateStatus ''Recording stopped. Click Start to begin again.'' st1
            else st1, [])"
      by (rule stopRecording_stopped) (simp_all add: eq)
    then show ?thesis by (simp add: eq updateStatus_def)
  qed
  from one two show ?thesis by (simp add: st1_def)
qed

text \<open>
  An instance of C9: a fresh component is stopped, and a component that has recorded is
  stopped twice.
\<close>

theorem stop_idempotent_witness:
  "captureState (fst (stopRecording (construct 0))) = captureState (construct 0)
   \<and> snd (stopRecording (construct 0)) = []
   \<and> stopRecording (fst (stopRecording
        (fst (startRecording \<lparr>getUserMedia = Inr [7, 8], failingStep = None\<rparr> (construct 0))))) =
      (fst (stopRecording
        (fst (startRecording \<lparr>getUserMedia = Inr [7, 8], failingStep = None\<rparr> (construct 0)))), [])"
proof -
  have a: "\<not> isRecording (construct 0)" and b: "scriptProcessorNode (construct 0) = None"
    and c: "sourceNode (construct 0) = None" and d: "mediaStream (construct 0) = None"
    by (simp_all add: construct_def initAudio_def)
  from stop_idempotent [OF a b c d] show ?thesis by simp
qed

lemma tryStart_fails:
  assumes "startFails env"
  shows "\<exists>e. snd (snd (tryStart env st)) = Some e"
proof (cases "getUserMedia env")
  case (Inl e)
  then show ?thesis by (simp add: tryStart_def)
next
  case (Inr stream)
  with assms obtain step where "failingStep env = Some step"
    by (auto simp add: startFails_def)
  with Inr show ?thesis
    by (cases step) (simp_all add: tryStart_def Let_def)
qed

lemma tryStart_flag:
  "snd (snd (tryStart env st)) = Some e \<Longrightarrow>
     isRecording (fst (tryStart env st)) = isRecording st
   \<and> inputAudioContext (fst (tryStart env st)) = inputAudioContext st"
  by (auto simp add: tryStart_def Let_def updateStatus_def split: sum.splits if_splits)

lemma tryStart_stream:
  "mediaStream (fst (tryStart env st)) =
     (case getUserMedia env of Inl e \<Rightarrow> mediaStream st | Inr stream \<Rightarrow> Some stream)"
  by (auto simp add: tryStart_def Let_def updateStatus_def split: sum.splits)

lemma tryStart_succeeds:
  assumes "\<not> startFails env"
  shows "isRecording (fst (tryStart env st)) \<and> snd (snd (tryStart env st)) = None"
proof -
  from assms obtain stream where "getUserMedia env = Inr stream" and "failingStep env = None"
    by (cases "getUserMedia env") (auto simp add: startFails_def)
  then show ?thesis by (simp add: tryStart_def Let_def updateStatus_def)
qed

lemma stopRecording_tracks:
  "inputAudioContext st \<Longrightarrow> mediaStream st = Some stream \<Longrightarrow>
     set (map TrackStop stream) \<subseteq> set (snd (stopRecording st))"
  by (simp add: stopRecording_def stopBegin_def stopDisconnect_def stopRelease_def
      updateStatus_def Let_def case_prod_beta)

lemma startRecording_failed:
  assumes idle: "\<not> isRecording st" and fails: "startFails env"
  defines "st1 \<equiv> updateStatus ''Requesting microphone access...''
                   (if \<not> sessionPromise st then initSession st else st)"
  shows "\<exists>e. startRecording env st =
           (fst (stopRecording (updateStatus (''Error: '' @ errorMessage e) (fst (tryStart env st1)))),
            ContextResume # fst (snd (tryStart env st1)) @ ConsoleError e #
              snd (stopRecording (updateStatus (''Error: '' @ errorMessage e)
                                    (fst (tryStart env st1)))))"
proof -
  from tryStart_fails [OF fails, of st1] obtain e where "snd (snd (tryStart env st1)) = Some e" ..
  then have "startRecording env st =
           (fst (stopRecording (updateStatus (''Error: '' @ errorMessage e) (fst (tryStart env st1)))),
            ContextResume # fst (snd (tryStart env st1)) @ ConsoleError e #
              snd (stopRecording (updateStatus (''Error: '' @ errorMessage e)
                                    (fst (tryStart env st1)))))"
    using idle by (simp add: startRecording_def st1_def Let_def case_prod_beta)
  then show ?thesis ..
qed

lemma startRecording_succeeds:
  assumes "\<not> isRecording st" and "\<not> startFails env"
  shows "isRecording (fst (startRecording env st))"
proof -
  define st1 where "st1 = updateStatus ''Requesting microphone access...''
                   (if \<not> sessionPromise st then initSession st else st)"
  from tryStart_succeeds [OF assms(2), of st1]
  show ?thesis using assms(1) by (simp add: startRecording_def st1_def Let_def case_prod_beta)
qed

text \<open>
  C10. When \<open>startRecording\<close> fails on a component that is not recording, because
  \<open>getUserMedia\<close> rejects or an audio-graph call throws, the component is left not
  recording, with no processor node, no source node and no stream; every track of a
  stream that was acquired has been stopped; a later \<open>startRecording\<close> that meets no
  failure records; and \<open>startRecording\<close> on a recording component does nothing.
\<close>

theorem failed_start_recovers:
  assumes idle: "\<not> isRecording st" and ctx: "inputAudioContext st" and fails: "startFails env"
  shows "\<not> isRecording (fst (startRecording env st))
       \<and> scriptProcessorNode (fst (startRecording env st)) = None
       \<and> sourceNode (fst (startRecording env st)) = None
       \<and> mediaStream (fst (startRecording env st)) = None
       \<and> set (map TrackStop (acquiredTracks env)) \<subseteq> set (snd (startRecording env st))
       \<and> (\<not> startFails env' \<longrightarrow>
            isRecording (fst (startRecording env' (fst (startRecording env st)))))
       \<and> (isRecording st0 \<longrightarrow> startRecording env0 st0 = (st0, []))"
proof -
  define st1 where "st1 = updateStatus ''Requesting microphone access...''
                   (if \<not> sessionPromise st then initSession st else st)"
  from startRecording_failed [OF idle fails] obtain e where run:
    "startRecording env st =
           (fst (stopRecording (updateStatus (''Error: '' @ errorMessage e) (fst (tryStart env st1)))),
            ContextResume # fst (snd (tryStart env st1)) @ ConsoleError e #
              snd (stopRecording (updateStatus (''Error: '' @ errorMessage e)
                                    (fst (tryStart env st1)))))"
    unfolding st1_def by blast
  define st3 where "st3 = updateStatus (''Error: '' @ errorMessage e) (fst (tryStart env st1))"
  have ctx1: "inputAudioContext st1"
    using ctx by (simp add: st1_def updateStatus_def initSession_def)
  from tryStart_fails [OF fails, of st1] obtain e' where "snd (snd (tryStart env st1)) = Some e'" ..
  from tryStart_flag [OF this] ctx1 have ctx3: "inputAudioContext st3"
    by (simp add: st3_def updateStatus_def)
  have res: "fst (startRecording env st) =
               st3\<lparr>isRecording := False, scriptProcessorNode := None, sourceNode := None,
                    mediaStream := None,
                    status := ''Recording stopped. Click Start to begin again.''\<rparr>"
  proof -
    have "fst (startRecording env st) = fst (stopRecording st3)"
      by (simp only: run st3_def fst_conv)
    then show ?thesis using ctx3 by (simp add: stopRecording_result)
  qed
  have effs: "snd (startRecording env st) =
                ContextResume # fst (snd (tryStart env st1)) @ ConsoleError e #
                  snd (stopRecording st3)"
    by (simp only: run st3_def snd_conv)
  have tracks: "set (map TrackStop (acquiredTracks env)) \<subseteq> set (snd (startRecording env st))"
  proof (cases "getUserMedia env")
    case (Inl err)
    then show ?thesis by (simp add: acquiredTracks_def)
  next
    case (Inr stream)
    then have "mediaStream st3 = Some stream"
      by (simp add: st3_def updateStatus_def tryStart_stream)
    from stopRecording_tracks [OF ctx3 this] Inr show ?thesis
      by (auto simp add: effs acquiredTracks_def)
  qed
  have retry: "\<not> startFails env' \<longrightarrow>
            isRecording (fst (startRecording env' (fst (startRecording env st))))"
  proof
    assume ok: "\<not> startFails env'"
    have "\<not> isRecording (fst (startRecording env st))" by (simp add: res)
    from startRecording_succeeds [OF this ok] show
      "isRecording (fst (startRecording env' (fst (startRecording env st))))" .
  qed
  have noop: "isRecording st0 \<longrightarrow> startRecording env0 st0 = (st0, [])"
    by (simp add: startRecording_def)
  from res tracks retry noop show ?thesis by simp
qed

text \<open>
  An instance of C10: the script processor cannot be made after the device handed over
  a stream of two tracks; the retry records.
\<close>

theorem failed_start_recovers_witness:
  "startFails \<lparr>getUserMedia = Inr [7, 8], failingStep = Some CreateProcessor\<rparr>
   \<and> captureState (fst (startRecording
        \<lparr>getUserMedia = Inr [7, 8], failingStep = Some CreateProcessor\<rparr> (construct 0))) =
       (False, None, None, None)
   \<and> {TrackStop 7, TrackStop 8} \<subseteq> set (snd (startRecording
        \<lparr>getUserMedia = Inr [7, 8], failingStep = Some CreateProcessor\<rparr> (construct 0)))
   \<and> isRecording (fst (startRecording \<lparr>getUserMedia = Inr [9], failingStep = None\<rparr>
        (fst (startRecording
          \<lparr>getUserMedia = Inr [7, 8], failingStep = Some CreateProcessor\<rparr> (construct 0)))))"
proof -
  have a: "\<not> isRecording (construct 0)" and b: "inputAudioContext (construct 0)"
    by (simp_all add: construct_def initAudio_def)
  have c: "startFails \<lparr>getUserMedia = Inr [7, 8], failingStep = Some CreateProcessor\<rparr>"
    by (simp add: startFails_def)
  have d: "\<not> startFails \<lparr>getUserMedia = Inr [9], failingStep = None\<rparr>"
    by (simp add: startFails_def)
  from failed_start_recovers [OF a b c, of "\<lparr>getUserMedia = Inr [9], failingStep = None\<rparr>"] c d
  show ?thesis by (simp add: captureState_def acquiredTracks_def)
qed

end
